theory Spec2Isabelle
  imports Complex_Main
begin

section \<open>JavaScript strings and truthiness\<close>

text \<open>
  Strings are \<open>string\<close>. A value that may be \<open>undefined\<close> or \<open>null\<close> is a
  \<open>string option\<close>; it is truthy when it is a non-empty string.
\<close>

fun truthy :: "string option \<Rightarrow> bool" where
  "truthy None = False"
| "truthy (Some t) = (t \<noteq> [])"

text \<open>\<open>a || b\<close> on two such values.\<close>

definition js_or :: "string option \<Rightarrow> string option \<Rightarrow> string option" where
  "js_or a b = (if truthy a then a else b)"

text \<open>
  A value of any type, where the code does not fix the type: what \<open>JSON.parse\<close> can
  return, and \<open>undefined\<close> for a property that is absent. A number is the value of
  the parsed double.
\<close>

datatype jsval =
    JUndefined
  | JNull
  | JBool bool
  | JNum rat
  | JStr string
  | JArr "jsval list"
  | JObj "(string \<times> jsval) list"

fun val_truthy :: "jsval \<Rightarrow> bool" where
  "val_truthy JUndefined = False"
| "val_truthy JNull = False"
| "val_truthy (JBool b) = b"
| "val_truthy (JNum n) = (n \<noteq> 0)"
| "val_truthy (JStr t) = (t \<noteq> [])"
| "val_truthy (JArr xs) = True"
| "val_truthy (JObj ps) = True"

text \<open>\<open>a || b\<close> on two values.\<close>

definition val_or :: "jsval \<Rightarrow> jsval \<Rightarrow> jsval" where
  "val_or a b = (if val_truthy a then a else b)"

text \<open>\<open>s.startsWith(p)\<close>\<close>

definition startsWith :: "string \<Rightarrow> string \<Rightarrow> bool" where
  "startsWith s p = (take (length p) s = p)"

text \<open>\<open>s.includes(p)\<close>: \<open>p\<close> occurs in \<open>s\<close> at some position.\<close>

fun includes_str :: "string \<Rightarrow> string \<Rightarrow> bool" where
  "includes_str [] p = (p = [])"
| "includes_str (c # cs) p = (startsWith (c # cs) p \<or> includes_str cs p)"

text \<open>\<open>s.split(sep)\<close> for a one-character separator: \<open>"".split(" ")\<close> is \<open>[""]\<close>,
  and two adjacent separators give an empty part.\<close>

fun split_on :: "char \<Rightarrow> string \<Rightarrow> string list" where
  "split_on sep [] = [[]]"
| "split_on sep (c # cs) =
     (if c = sep then [] # split_on sep cs
      else (case split_on sep cs of
              [] \<Rightarrow> [[c]]
            | p # ps \<Rightarrow> (c # p) # ps))"

text \<open>\<open>s.replace(/c/g, r)\<close>\<close>

definition replace_all :: "char \<Rightarrow> string \<Rightarrow> string \<Rightarrow> string" where
  "replace_all c r s = concat (map (\<lambda>x. if x = c then r else [x]) s)"

text \<open>
  \<open>escapeHtml(text)\<close>: the empty string for a falsy argument, otherwise the four
  replacements in the order of the source.
\<close>

definition escapeHtml :: "string option \<Rightarrow> string" where
  "escapeHtml t =
     (case t of
        None \<Rightarrow> []
      | Some s \<Rightarrow>
          if s = [] then []
          else replace_all (CHR 0x22) ''&quot;''
                 (replace_all CHR ''>'' ''&gt;''
                    (replace_all CHR ''<'' ''&lt;''
                       (replace_all CHR ''&'' ''&amp;'' s))))"

section \<open>Data model\<close>

text \<open>
  The worker's environment. A binding or variable that is not set is \<open>None\<close>;
  the key-value binding \<open>TELEGRAM_BOT_KV\<close> is either bound or not.
\<close>

record env =
  BRAND_ID :: "string option"
  LOYALTEEZ_API_URL :: "string option"
  TELEGRAM_BOT_TOKEN :: "string option"
  WEBHOOK_SECRET :: "string option"
  TELEGRAM_BOT_KV :: bool

text \<open>
  The inbound update, with the fields the handler reads. A \<open>chat\<close> or \<open>from\<close> that is
  \<open>undefined\<close> or \<open>null\<close> is \<open>None\<close>, and reading a property of it throws a
  \<open>TypeError\<close>; one that is present is an object of the platform's schema.
  \<open>text\<close> is a value of any type. \<open>new_chat_members\<close> is \<open>None\<close> when it is falsy;
  otherwise it is an array, whose entries are user objects or \<open>null\<close> (\<open>None\<close>), or
  a value that \<open>for ... of\<close> cannot iterate.
\<close>

record user =
  user_id :: int
  is_bot :: bool
  first_name :: "string option"
  last_name :: "string option"
  username :: "string option"

record chat =
  chat_id :: int

datatype members = NotIterable | Members "user option list"

record message =
  chat :: "chat option"
  from_user :: "user option"
  msg_text :: jsval
  new_chat_members :: "members option"

text \<open>
  The parsed body: JSON \<open>null\<close> (reading \<open>update.message\<close> throws), or any other
  value, with its \<open>message\<close> when that is truthy.
\<close>

datatype update = UpdateNull | Update "message option"

datatype body = BodyInvalid | BodyJson update

record request =
  http_method :: string
  pathname :: string
  secret :: "string option"
  body :: body

datatype exn = TypeError | SyntaxError | NetworkError | StoreError

text \<open>
  The two persisted keys, \<open>JOIN_EVENT_ID:<chatId>\<close> and \<open>CHECKIN_EVENT_ID:<chatId>\<close>,
  as a datatype: the template literal is injective in the chat identifier.
\<close>

datatype kv_key = JOIN_EVENT_ID int | CHECKIN_EVENT_ID int

datatype kind = Checkin | Join

text \<open>
  The texts passed to \<open>sendMessage\<close>, one constructor for each template of the source,
  with the values the template interpolates:
  \<^item> \<open>JoinNotConfigured\<close>: "Join reward not configured. Admin: Use /config_join ..."
  \<^item> \<open>WelcomeEarned name amount\<close>: "Welcome name! You've earned amount tokens for joining."
  \<^item> \<open>WelcomeProcessing name\<close>: "Welcome name! (Reward processing...)"
  \<^item> \<open>CheckinNotConfigured\<close>: "Daily check-in not configured. Admin: Use /config_checkin ..."
  \<^item> \<open>CheckinComplete amount\<close>: "Daily check-in complete! amount sent to your wallet."
  \<^item> \<open>CheckinCooldown\<close>: "You've already checked in today. Come back tomorrow!"
  \<^item> \<open>EventNotFound id\<close>: "Event "id" not found or inactive. Admin: Verify the event ID ..."
  \<^item> \<open>CheckinFailed err\<close>: "Check-in failed: err"
  \<^item> \<open>BalanceLink\<close>: "View your LTZ balance and spend tokens here: ..."
  \<^item> \<open>OnlyAdmins\<close>: "Only admins can configure the bot."
  \<^item> \<open>ConfigUsage k\<close>: "Usage: /config_checkin ..." or "Usage: /config_join ..."
  \<^item> \<open>ConfigMapped k input resolved\<close>: "... event configured! Friendly name: input Maps to: resolved"
  \<^item> \<open>ConfigUpdated k resolved\<close>: "... event updated to: resolved"
  \<^item> \<open>KvNotConfigured\<close>: "KV Storage not configured. Cannot save settings."
  \<^item> \<open>StartHelp\<close>: "Welcome to the community loyalty bot! ..."
\<close>

datatype msg =
    JoinNotConfigured
  | WelcomeEarned "string option" jsval
  | WelcomeProcessing "string option"
  | CheckinNotConfigured
  | CheckinComplete jsval
  | CheckinCooldown
  | EventNotFound string
  | CheckinFailed jsval
  | BalanceLink
  | OnlyAdmins
  | ConfigUsage kind
  | ConfigMapped kind string string
  | ConfigUpdated kind string
  | KvNotConfigured
  | StartHelp

text \<open>
  Everything a request does to the outside, in order: reading the request body, the calls
  to the chat platform, to the rewards API and to the key-value store.
  \<open>RewardSendEvent\<close> is the call \<open>loyalteez.sendEvent(eventType, userEmail, metadata)\<close>;
  the email is synthesised from the user's id, and the metadata are the user's names,
  the chat id and the bot's username.
\<close>

datatype action =
    RequestJson
  | TelegramSendMessage int msg
  | TelegramGetChatMember int int
  | TelegramGetMe
  | EventConfigFetch string string
  | RewardSendEvent string user int "string option"
  | KvGet kv_key
  | KvPut kv_key string

text \<open>
  The state a request runs in: the contents of the key-value store, the module-level
  \<open>cachedBotUsername\<close>, and the trace of actions so far.
\<close>

record state =
  kv :: "kv_key \<rightharpoonup> string"
  cachedBotUsername :: "string option"
  trace :: "action list"

definition emit :: "action \<Rightarrow> state \<Rightarrow> state" where
  "emit a s = s\<lparr>trace := trace s @ [a]\<rparr>"

section \<open>The outside world\<close>

text \<open>
  What the remote services answer is not decided by the program. Each answer is a
  function of the trace up to and including the call it answers, so that the same call
  may be answered differently at different times.

  \<open>getChatMember\<close>: the \<open>try\<close> block throws (transport error, unparsable body,
  missing \<open>result\<close>), or \<open>data.ok\<close> is falsy, or \<open>data.result.status\<close> is read.
\<close>

datatype member_resp = MemberThrows | MemberNotOk | MemberOk string

text \<open>\<open>getMe\<close>: likewise, with \<open>data.result.username\<close>.\<close>

datatype getme_resp = GetMeThrows | GetMeNotOk | GetMeOk "string option"

text \<open>
  An entry of the event-config listing; a \<open>null\<close> entry is \<open>None\<close> in the list, and
  reading a property of it throws.
\<close>

record event_config =
  eventNameMapping :: "string option"
  eventId :: "string option"
  eventType :: "string option"

text \<open>
  The listing query: \<open>fetch\<close> throws; or the status is not a success (the status code
  is kept); or the body does not parse, is \<open>null\<close>, or its \<open>events\<close> cannot be
  iterated; or \<open>data.events\<close> is read (\<open>None\<close> when it is falsy).
\<close>

datatype config_resp =
    ConfigFetchThrows
  | ConfigNotOk nat
  | ConfigBodyThrows
  | ConfigData "event_config option list option"

text \<open>
  The result of a reward trigger: \<open>success\<close> is the truthiness of \<open>result.success\<close>;
  the other fields are values of any type, \<open>JUndefined\<close> when absent.
  A parsed response that is not an object, apart from \<open>null\<close>, has no properties and
  behaves like an object with every field absent.
\<close>

record reward_result =
  success :: bool
  ltzDistributed :: jsval
  rewardAmount :: jsval
  error :: jsval

datatype reward_data = DataNull | DataObj reward_result

text \<open>
  \<open>LoyalteezClient.sendEvent\<close> of \<open>src/utils/loyalteez.js\<close> is taken at its interface:
  it returns the parsed response of the rewards API, whatever JSON value that is, or
  throws an \<open>Error\<close> with a message. Its own requests (the wallet pregeneration and
  the event, over the service binding or over HTTP) are the one action
  \<open>RewardSendEvent\<close> of the trace.
\<close>

datatype send_event_resp = SendEventThrows string | SendEventReturns reward_data

record world =
  getChatMember :: "action list \<Rightarrow> member_resp"
  getMe :: "action list \<Rightarrow> getme_resp"
  eventConfig :: "action list \<Rightarrow> config_resp"
  sendEvent :: "action list \<Rightarrow> send_event_resp"
  kv_fails :: "action list \<Rightarrow> bool"

section \<open>The operations of \<open>src/index.js\<close>\<close>

text \<open>
  \<open>sendMessage(env, chatId, text)\<close>: nothing without a bot token; otherwise one call to
  the platform, whose outcome is only logged.
\<close>

definition sendMessage :: "env \<Rightarrow> int \<Rightarrow> msg \<Rightarrow> state \<Rightarrow> state" where
  "sendMessage e chatId t s =
     (if \<not> truthy (TELEGRAM_BOT_TOKEN e) then s
      else emit (TelegramSendMessage chatId t) s)"

text \<open>\<open>isAdmin(env, chatId, userId)\<close>\<close>

definition isAdmin :: "world \<Rightarrow> env \<Rightarrow> int \<Rightarrow> int \<Rightarrow> state \<Rightarrow> bool \<times> state" where
  "isAdmin w e chatId userId s =
     (if \<not> truthy (TELEGRAM_BOT_TOKEN e) then (False, s)
      else if chatId > 0 then (True, s)
      else
        (let s1 = emit (TelegramGetChatMember chatId userId) s in
         case getChatMember w (trace s1) of
           MemberOk st \<Rightarrow> (st \<in> set [''creator'', ''administrator''], s1)
         | MemberNotOk \<Rightarrow> (False, s1)
         | MemberThrows \<Rightarrow> (False, s1)))"

text \<open>\<open>getBotUsername(env)\<close>, with the module-level cache.\<close>

definition getBotUsername :: "world \<Rightarrow> env \<Rightarrow> state \<Rightarrow> string option \<times> state" where
  "getBotUsername w e s =
     (if truthy (cachedBotUsername s) then (cachedBotUsername s, s)
      else if \<not> truthy (TELEGRAM_BOT_TOKEN e) then (None, s)
      else
        (let s1 = emit TelegramGetMe s in
         case getMe w (trace s1) of
           GetMeOk None \<Rightarrow> (None, s1)
         | GetMeOk (Some u) \<Rightarrow>
             if u = [] then (None, s1)
             else (Some (''@'' @ u), s1\<lparr>cachedBotUsername := Some (''@'' @ u)\<rparr>)
         | GetMeNotOk \<Rightarrow> (None, s1)
         | GetMeThrows \<Rightarrow> (None, s1)))"

text \<open>
  \<open>triggerReward(env, eventType, user, chatId)\<close>: a failure result without a brand
  identifier; otherwise the result of \<open>sendEvent\<close>, an exception of which becomes a
  failure result with its message.
\<close>

definition triggerReward ::
  "world \<Rightarrow> env \<Rightarrow> string \<Rightarrow> user \<Rightarrow> int \<Rightarrow> state \<Rightarrow> reward_data \<times> state" where
  "triggerReward w e evType u chatId s =
     (if \<not> truthy (BRAND_ID e) then
        (DataObj \<lparr>success = False, ltzDistributed = JUndefined, rewardAmount = JUndefined,
                  error = JStr ''Bot configuration error''\<rparr>, s)
      else
        (let (botUsername, s1) = getBotUsername w e s;
             s2 = emit (RewardSendEvent evType u chatId botUsername) s1
         in case sendEvent w (trace s2) of
              SendEventReturns r \<Rightarrow> (r, s2)
            | SendEventThrows m \<Rightarrow>
                (DataObj \<lparr>success = False, ltzDistributed = JUndefined,
                          rewardAmount = JUndefined,
                          error = val_or (JStr m) (JStr ''Failed to process reward'')\<rparr>, s2)))"

text \<open>
  The loop of \<open>resolveEventId\<close> over the listing: the first entry whose
  \<open>eventNameMapping\<close> or \<open>eventType\<close> equals the name decides; the name itself when
  the loop ends.
\<close>

fun resolve_loop :: "string \<Rightarrow> event_config option list \<Rightarrow> exn + string option" where
  "resolve_loop friendlyName [] = Inr (Some friendlyName)"
| "resolve_loop friendlyName (None # cs) = Inl TypeError"
| "resolve_loop friendlyName (Some c # cs) =
     (if eventNameMapping c = Some friendlyName then Inr (js_or (eventId c) (eventType c))
      else if eventType c = Some friendlyName then Inr (js_or (eventId c) (eventType c))
      else resolve_loop friendlyName cs)"

text \<open>The \<open>try\<close> block of \<open>resolveEventId\<close>, after the request has been sent.\<close>

definition resolve_try :: "string \<Rightarrow> config_resp \<Rightarrow> exn + string option" where
  "resolve_try friendlyName resp =
     (case resp of
        ConfigFetchThrows \<Rightarrow> Inl NetworkError
      | ConfigNotOk st \<Rightarrow> Inr (Some friendlyName)
      | ConfigBodyThrows \<Rightarrow> Inl SyntaxError
      | ConfigData evs \<Rightarrow>
          resolve_loop friendlyName (case evs of None \<Rightarrow> [] | Some cs \<Rightarrow> cs))"

text \<open>
  \<open>resolveEventId(env, friendlyName)\<close>. The result is an exception or a value: that it
  is never an exception is a theorem below. The value is \<open>None\<close> when the matching
  entry has neither a truthy \<open>eventId\<close> nor an \<open>eventType\<close> (\<open>undefined\<close>).
\<close>

definition api_url :: "env \<Rightarrow> string" where
  "api_url e =
     (case LOYALTEEZ_API_URL e of
        None \<Rightarrow> ''https://api.loyalteez.app''
      | Some u \<Rightarrow> if u = [] then ''https://api.loyalteez.app'' else u)"

definition resolveEventId ::
  "world \<Rightarrow> env \<Rightarrow> string \<Rightarrow> state \<Rightarrow> (exn + string option) \<times> state" where
  "resolveEventId w e friendlyName s =
     (if startsWith friendlyName ''custom_'' then (Inr (Some friendlyName), s)
      else
        (case BRAND_ID e of
           None \<Rightarrow> (Inr (Some friendlyName), s)
         | Some brand \<Rightarrow>
             if brand = [] then (Inr (Some friendlyName), s)
             else
               (let s1 = emit (EventConfigFetch (api_url e) brand) s in
                case resolve_try friendlyName (eventConfig w (trace s1)) of
                  Inl ex \<Rightarrow> (Inr (Some friendlyName), s1)
                | Inr r \<Rightarrow> (Inr r, s1))))"

text \<open>
  The key-value binding. A read or a write can fail in the store, and then throws.
  \<open>put\<close> stores a string as it is, and the string \<open>undefined\<close> for the value
  \<open>undefined\<close>.
\<close>

definition stored_string :: "string option \<Rightarrow> string" where
  "stored_string v = (case v of None \<Rightarrow> ''undefined'' | Some x \<Rightarrow> x)"

definition kv_get :: "world \<Rightarrow> kv_key \<Rightarrow> state \<Rightarrow> (exn + string option) \<times> state" where
  "kv_get w k s =
     (let s1 = emit (KvGet k) s in
      if kv_fails w (trace s1) then (Inl StoreError, s1) else (Inr (kv s1 k), s1))"

definition kv_put :: "world \<Rightarrow> kv_key \<Rightarrow> string option \<Rightarrow> state \<Rightarrow> exn option \<times> state" where
  "kv_put w k v s =
     (let s1 = emit (KvPut k (stored_string v)) s in
      if kv_fails w (trace s1) then (Some StoreError, s1)
      else (None, s1\<lparr>kv := (kv s1)(k \<mapsto> stored_string v)\<rparr>))"

text \<open>
  Reading the configured event identifier of a chat: \<open>null\<close> without the binding,
  otherwise what the store holds.
\<close>

definition read_event_id ::
  "world \<Rightarrow> env \<Rightarrow> kv_key \<Rightarrow> state \<Rightarrow> (exn + string option) \<times> state" where
  "read_event_id w e k s =
     (if TELEGRAM_BOT_KV e then kv_get w k s else (Inr None, s))"

section \<open>The message handler\<close>

text \<open>
  The join branch of \<open>handleMessage\<close>: the loop over \<open>message.new_chat_members\<close>.
  Reading \<open>member.is_bot\<close> of a \<open>null\<close> entry throws, and so does reading
  \<open>result.success\<close> of a \<open>null\<close> result.
\<close>

fun join_loop ::
  "world \<Rightarrow> env \<Rightarrow> string \<Rightarrow> int \<Rightarrow> user option list \<Rightarrow> state \<Rightarrow> exn option \<times> state" where
  "join_loop w e joinEventId chatId [] s = (None, s)"
| "join_loop w e joinEventId chatId (None # ms) s = (Some TypeError, s)"
| "join_loop w e joinEventId chatId (Some member # ms) s =
     (if \<not> is_bot member then
        (case triggerReward w e joinEventId member chatId s of
           (DataNull, s1) \<Rightarrow> (Some TypeError, s1)
         | (DataObj r, s1) \<Rightarrow>
             join_loop w e joinEventId chatId ms
               (sendMessage e chatId
                  (if success r
                   then WelcomeEarned (first_name member) (val_or (ltzDistributed r) (JStr ''LTZ''))
                   else WelcomeProcessing (first_name member)) s1))
      else join_loop w e joinEventId chatId ms s)"

definition handleMessage_join ::
  "world \<Rightarrow> env \<Rightarrow> int \<Rightarrow> members \<Rightarrow> state \<Rightarrow> exn option \<times> state" where
  "handleMessage_join w e chatId members s =
     (case read_event_id w e (JOIN_EVENT_ID chatId) s of
        (Inl ex, s1) \<Rightarrow> (Some ex, s1)
      | (Inr joinEventId, s1) \<Rightarrow>
          if \<not> truthy joinEventId then (None, sendMessage e chatId JoinNotConfigured s1)
          else
            (case members of
               NotIterable \<Rightarrow> (Some TypeError, s1)
             | Members ms \<Rightarrow>
                 join_loop w e (case joinEventId of Some j \<Rightarrow> j | None \<Rightarrow> []) chatId ms s1))"

text \<open>
  \<open>result.error?.includes(p)\<close>: \<open>undefined\<close> (falsy) for an error that is
  \<open>undefined\<close> or \<open>null\<close>; the substring test for a string; the membership test for an
  array; and a \<open>TypeError\<close> for any other value, which has no method \<open>includes\<close>.
\<close>

fun error_includes :: "jsval \<Rightarrow> string \<Rightarrow> exn + bool" where
  "error_includes JUndefined p = Inr False"
| "error_includes JNull p = Inr False"
| "error_includes (JStr t) p = Inr (includes_str t p)"
| "error_includes (JArr xs) p = Inr (JStr p \<in> set xs)"
| "error_includes (JBool b) p = Inl TypeError"
| "error_includes (JNum n) p = Inl TypeError"
| "error_includes (JObj ps) p = Inl TypeError"

text \<open>
  The reply of the \<open>/checkin\<close> branch to a reward result, or the exception thrown while
  it is chosen. The three tests run in the order of the source.
\<close>

definition checkin_reply :: "string \<Rightarrow> reward_result \<Rightarrow> exn + msg" where
  "checkin_reply checkinEventId r =
     (if success r then
        Inr (CheckinComplete
               (val_or (ltzDistributed r) (val_or (rewardAmount r) (JStr ''LTZ''))))
      else
        (case error_includes (error r) ''cooldown'' of
           Inl ex \<Rightarrow> Inl ex
         | Inr True \<Rightarrow> Inr CheckinCooldown
         | Inr False \<Rightarrow>
             (case error_includes (error r) ''not found'' of
                Inl ex \<Rightarrow> Inl ex
              | Inr True \<Rightarrow> Inr (EventNotFound checkinEventId)
              | Inr False \<Rightarrow>
                  (case error_includes (error r) ''Invalid event'' of
                     Inl ex \<Rightarrow> Inl ex
                   | Inr True \<Rightarrow> Inr (EventNotFound checkinEventId)
                   | Inr False \<Rightarrow>
                       Inr (CheckinFailed (val_or (error r) (JStr ''Unknown error'')))))))"

definition handleMessage_checkin ::
  "world \<Rightarrow> env \<Rightarrow> int \<Rightarrow> user \<Rightarrow> state \<Rightarrow> exn option \<times> state" where
  "handleMessage_checkin w e chatId u s =
     (case read_event_id w e (CHECKIN_EVENT_ID chatId) s of
        (Inl ex, s1) \<Rightarrow> (Some ex, s1)
      | (Inr checkinEventId, s1) \<Rightarrow>
          if \<not> truthy checkinEventId then (None, sendMessage e chatId CheckinNotConfigured s1)
          else
            (let cid = (case checkinEventId of Some c \<Rightarrow> c | None \<Rightarrow> []) in
             case triggerReward w e cid u chatId s1 of
               (DataNull, s2) \<Rightarrow> (Some TypeError, s2)
             | (DataObj r, s2) \<Rightarrow>
                 (case checkin_reply cid r of
                    Inl ex \<Rightarrow> (Some ex, s2)
                  | Inr t \<Rightarrow> (None, sendMessage e chatId t s2))))"

text \<open>
  The branches \<open>/config_checkin\<close> and \<open>/config_join\<close> are the same code up to the key
  written and the texts sent; \<open>k\<close> says which of the two runs.
\<close>

fun config_key :: "kind \<Rightarrow> int \<Rightarrow> kv_key" where
  "config_key Checkin chatId = CHECKIN_EVENT_ID chatId"
| "config_key Join chatId = JOIN_EVENT_ID chatId"

definition handleMessage_config ::
  "world \<Rightarrow> env \<Rightarrow> kind \<Rightarrow> int \<Rightarrow> user \<Rightarrow> string \<Rightarrow> state \<Rightarrow> exn option \<times> state" where
  "handleMessage_config w e k chatId u txt s =
     (let (admin, s1) = isAdmin w e chatId (user_id u) s in
      if \<not> admin then (None, sendMessage e chatId OnlyAdmins s1)
      else
        (let parts = split_on CHR '' '' txt in
         if length parts < 2 then (None, sendMessage e chatId (ConfigUsage k) s1)
         else
           (let inputName = parts ! 1 in
            case resolveEventId w e inputName s1 of
              (Inl ex, s2) \<Rightarrow> (Some ex, s2)
            | (Inr resolvedEventId, s2) \<Rightarrow>
                if TELEGRAM_BOT_KV e then
                  (case kv_put w (config_key k chatId) resolvedEventId s2 of
                     (Some ex, s3) \<Rightarrow> (Some ex, s3)
                   | (None, s3) \<Rightarrow>
                       (None,
                        sendMessage e chatId
                          (if resolvedEventId \<noteq> Some inputName
                           then ConfigMapped k (escapeHtml (Some inputName))
                                  (escapeHtml resolvedEventId)
                           else ConfigUpdated k (escapeHtml resolvedEventId)) s3))
                else (None, sendMessage e chatId KvNotConfigured s2))))"

text \<open>
  \<open>message.text || ""\<close>, and the string it is when it is one. A prefix test
  \<open>text.startsWith(p)\<close> throws when the value is not a string.
\<close>

definition text_value :: "message \<Rightarrow> jsval" where
  "text_value m = val_or (msg_text m) (JStr [])"

definition text_of :: "message \<Rightarrow> string" where
  "text_of m = (case text_value m of JStr t \<Rightarrow> t | _ \<Rightarrow> [])"

text \<open>
  \<open>handleMessage(message, env)\<close>: the result is the exception that escapes, if any,
  and the state reached.
\<close>

definition handleMessage :: "world \<Rightarrow> env \<Rightarrow> message \<Rightarrow> state \<Rightarrow> exn option \<times> state" where
  "handleMessage w e m s =
     (case chat m of
        None \<Rightarrow> (Some TypeError, s)
      | Some c \<Rightarrow>
          (case from_user m of
             None \<Rightarrow> (Some TypeError, s)
           | Some u \<Rightarrow>
               (let chatId = chat_id c in
                if is_bot u then (None, s)
                else
                  (case new_chat_members m of
                     Some members \<Rightarrow> handleMessage_join w e chatId members s
                   | None \<Rightarrow>
                       (case text_value m of
                          JStr txt \<Rightarrow>
                            if startsWith txt ''/checkin'' then handleMessage_checkin w e chatId u s
                            else if startsWith txt ''/balance'' \<or> startsWith txt ''/ltz''
                            then (None, sendMessage e chatId BalanceLink s)
                            else if startsWith txt ''/config_checkin''
                            then handleMessage_config w e Checkin chatId u txt s
                            else if startsWith txt ''/config_join''
                            then handleMessage_config w e Join chatId u txt s
                            else if startsWith txt ''/start''
                            then (None, sendMessage e chatId StartHelp s)
                            else (None, s)
                        | _ \<Rightarrow> (Some TypeError, s))))))"

definition handleUpdate :: "world \<Rightarrow> env \<Rightarrow> update \<Rightarrow> state \<Rightarrow> exn option \<times> state" where
  "handleUpdate w e u s =
     (case u of
        UpdateNull \<Rightarrow> (Some TypeError, s)
      | Update None \<Rightarrow> (None, s)
      | Update (Some m) \<Rightarrow> handleMessage w e m s)"

section \<open>The dispatcher\<close>

text \<open>
  The response: its status and what its body is. The health document carries the four
  configuration fields (its timestamp is left out).
\<close>

record health =
  brandId :: string
  apiUrl :: string
  kvConfigured :: bool
  tokenConfigured :: bool

datatype content = NoBody | HealthJson health | PlainText string | InternalServerError exn

record response =
  status :: nat
  content :: content

text \<open>
  \<open>fetch(request, env, ctx)\<close>. \<open>request.json()\<close> reads the body (\<open>RequestJson\<close>) and
  throws on a body that is not JSON; the \<open>catch\<close> turns every exception of the
  \<open>try\<close> block into the status 500.
\<close>

definition fetch :: "world \<Rightarrow> env \<Rightarrow> request \<Rightarrow> state \<Rightarrow> response \<times> state" where
  "fetch w e r s =
     (if http_method r = ''OPTIONS'' then (\<lparr>status = 200, content = NoBody\<rparr>, s)
      else if http_method r = ''GET'' \<and> pathname r = ''/health'' then
        (\<lparr>status = 200,
          content = HealthJson
            \<lparr>brandId = (if truthy (BRAND_ID e) then ''configured'' else ''missing''),
             apiUrl = api_url e,
             kvConfigured = TELEGRAM_BOT_KV e,
             tokenConfigured = truthy (TELEGRAM_BOT_TOKEN e)\<rparr>\<rparr>, s)
      else if http_method r \<noteq> ''POST'' then
        (\<lparr>status = 405, content = PlainText ''Method not allowed''\<rparr>, s)
      else if truthy (WEBHOOK_SECRET e) \<and> secret r \<noteq> WEBHOOK_SECRET e then
        (\<lparr>status = 401, content = PlainText ''Unauthorized''\<rparr>, s)
      else
        (let s1 = emit RequestJson s in
         case body r of
           BodyInvalid \<Rightarrow> (\<lparr>status = 500, content = InternalServerError SyntaxError\<rparr>, s1)
         | BodyJson u \<Rightarrow>
             (case handleUpdate w e u s1 of
                (None, s2) \<Rightarrow> (\<lparr>status = 200, content = PlainText ''OK''\<rparr>, s2)
              | (Some ex, s2) \<Rightarrow> (\<lparr>status = 500, content = InternalServerError ex\<rparr>, s2))))"

section \<open>Reading a trace\<close>

text \<open>
  The actions a run has added to the trace, and two kinds of action: the operations on
  the key-value store, and the resolver's listing query.
\<close>

definition new_actions :: "state \<Rightarrow> state \<Rightarrow> action list" where
  "new_actions s s' = drop (length (trace s)) (trace s')"

fun is_store_action :: "action \<Rightarrow> bool" where
  "is_store_action (KvGet k) = True"
| "is_store_action (KvPut k v) = True"
| "is_store_action a = False"

fun is_listing_query :: "action \<Rightarrow> bool" where
  "is_listing_query (EventConfigFetch u b) = True"
| "is_listing_query a = False"

text \<open>A trace without the operations on the store: the calls to the remote services.\<close>

definition outbound :: "action list \<Rightarrow> action list" where
  "outbound t = filter (\<lambda>a. \<not> is_store_action a) t"

section \<open>Sample inputs\<close>

text \<open>A world in which every remote call fails, and one in which every call succeeds.\<close>

definition quiet_world :: world where
  "quiet_world =
     \<lparr>getChatMember = (\<lambda>t. MemberThrows),
      getMe = (\<lambda>t. GetMeThrows),
      eventConfig = (\<lambda>t. ConfigFetchThrows),
      sendEvent = (\<lambda>t. SendEventThrows ''cooldown active''),
      kv_fails = (\<lambda>t. False)\<rparr>"

definition listing_world :: world where
  "listing_world =
     \<lparr>getChatMember = (\<lambda>t. MemberOk ''administrator''),
      getMe = (\<lambda>t. GetMeOk (Some ''loyalty_bot'')),
      eventConfig = (\<lambda>t. ConfigData (Some
        [Some \<lparr>eventNameMapping = Some ''daily_checkin'', eventId = Some ''custom_abc123'',
               eventType = Some ''custom_abc123''\<rparr>])),
      sendEvent = (\<lambda>t. SendEventReturns (DataObj
        \<lparr>success = True, ltzDistributed = JNum 10, rewardAmount = JUndefined,
         error = JUndefined\<rparr>)),
      kv_fails = (\<lambda>t. False)\<rparr>"

text \<open>
  A world in which the rewards API answers every trigger with a failure whose error is
  the given value, and one in which \<open>sendEvent\<close> throws with the given message.
\<close>

definition refusing_world :: "jsval \<Rightarrow> world" where
  "refusing_world err =
     quiet_world\<lparr>sendEvent := (\<lambda>t. SendEventReturns (DataObj
        \<lparr>success = False, ltzDistributed = JUndefined, rewardAmount = JUndefined,
         error = err\<rparr>))\<rparr>"

definition throwing_world :: "string \<Rightarrow> world" where
  "throwing_world m = quiet_world\<lparr>sendEvent := (\<lambda>t. SendEventThrows m)\<rparr>"

definition demo_env :: env where
  "demo_env =
     \<lparr>BRAND_ID = Some ''0xbrand'',
      LOYALTEEZ_API_URL = None,
      TELEGRAM_BOT_TOKEN = Some ''123:abc'',
      WEBHOOK_SECRET = Some ''s3cret'',
      TELEGRAM_BOT_KV = True\<rparr>"

definition init_state :: state where
  "init_state = \<lparr>kv = Map.empty, cachedBotUsername = None, trace = []\<rparr>"

definition alice :: user where
  "alice = \<lparr>user_id = 7, is_bot = False, first_name = Some ''Alice'', last_name = None,
            username = Some ''alice''\<rparr>"

definition anonymous_admin :: user where
  "anonymous_admin = \<lparr>user_id = 1087968824, is_bot = True, first_name = Some ''Group'',
            last_name = None, username = Some ''GroupAnonymousBot''\<rparr>"

definition text_message :: "int \<Rightarrow> user \<Rightarrow> string \<Rightarrow> message" where
  "text_message c u t =
     \<lparr>chat = Some \<lparr>chat_id = c\<rparr>, from_user = Some u, msg_text = JStr t,
      new_chat_members = None\<rparr>"

definition join_message :: "int \<Rightarrow> user \<Rightarrow> user list \<Rightarrow> message" where
  "join_message c u ms =
     \<lparr>chat = Some \<lparr>chat_id = c\<rparr>, from_user = Some u, msg_text = JUndefined,
      new_chat_members = Some (Members (map Some ms))\<rparr>"

definition configured_state :: state where
  "configured_state =
     \<lparr>kv = [CHECKIN_EVENT_ID (-100) \<mapsto> ''custom_abc123''], cachedBotUsername = None,
      trace = []\<rparr>"

definition unbound_env :: env where
  "unbound_env = demo_env\<lparr>TELEGRAM_BOT_KV := False\<rparr>"

definition bob :: user where
  "bob = \<lparr>user_id = 8, is_bot = False, first_name = Some ''Bob'', last_name = None,
          username = None\<rparr>"

text \<open>The state after an admin has run \<open>/config_checkin daily_checkin\<close> in the chat -100.\<close>

definition stored_state :: state where
  "stored_state =
     \<lparr>kv = [CHECKIN_EVENT_ID (-100) \<mapsto> ''custom_abc123''], cachedBotUsername = None,
      trace = [TelegramGetChatMember (-100) 7,
               EventConfigFetch ''https://api.loyalteez.app'' ''0xbrand'',
               KvPut (CHECKIN_EVENT_ID (-100)) ''custom_abc123'',
               TelegramSendMessage (-100)
                 (ConfigMapped Checkin ''daily_checkin'' ''custom_abc123'')]\<rparr>"

definition post_request :: "string option \<Rightarrow> body \<Rightarrow> request" where
  "post_request sec b = \<lparr>http_method = ''POST'', pathname = ''/'', secret = sec, body = b\<rparr>"

section \<open>Strings\<close>

lemma startsWith_iff: "startsWith s p \<longleftrightarrow> (\<exists>r. s = p @ r)"
  unfolding startsWith_def
  by (metis append_eq_conv_conj append_take_drop_id)

text \<open>\<open>includes_str\<close> is the substring relation.\<close>

lemma includes_str_iff: "includes_str s p \<longleftrightarrow> (\<exists>a b. s = a @ p @ b)"
proof (induction s)
  case Nil
  then show ?case by simp
next
  case (Cons c cs)
  show ?case
  proof
    assume "includes_str (c # cs) p"
    then consider "startsWith (c # cs) p" | "includes_str cs p" by auto
    then show "\<exists>a b. c # cs = a @ p @ b"
    proof cases
      case 1
      then obtain r where "c # cs = p @ r" by (auto simp: startsWith_iff)
      then have "c # cs = [] @ p @ r" by simp
      then show ?thesis by blast
    next
      case 2
      then obtain a b where "cs = a @ p @ b" using Cons.IH by blast
      then have "c # cs = (c # a) @ p @ b" by simp
      then show ?thesis by blast
    qed
  next
    assume "\<exists>a b. c # cs = a @ p @ b"
    then obtain a b where ab: "c # cs = a @ p @ b" by blast
    show "includes_str (c # cs) p"
    proof (cases a)
      case Nil
      with ab have "startsWith (c # cs) p" by (auto simp: startsWith_iff)
      then show ?thesis by simp
    next
      case (Cons x xs)
      with ab have "cs = xs @ p @ b" by simp
      then have "includes_str cs p" using Cons.IH by blast
      then show ?thesis by simp
    qed
  qed
qed

text \<open>The definitions unfolded to run the handler on a sample input.\<close>

lemmas eval_defs =
  handleMessage_def handleMessage_config_def handleMessage_checkin_def
  read_event_id_def kv_get_def kv_put_def text_message_def alice_def bob_def anonymous_admin_def
  init_state_def stored_state_def demo_env_def listing_world_def startsWith_def isAdmin_def
  text_of_def text_value_def val_or_def stored_string_def resolveEventId_def resolve_try_def api_url_def sendMessage_def emit_def
  js_or_def escapeHtml_def replace_all_def triggerReward_def getBotUsername_def
  checkin_reply_def

section \<open>The admin authorizer\<close>

text \<open>
  C1 (as amended). In a private chat (\<open>chatId > 0\<close>) \<open>isAdmin\<close> returns true for every
  user exactly when a bot token is configured, and false without one; the membership-status
  API is not called in either case (the state is unchanged), so its answer does not matter.
\<close>

theorem isAdmin_private_chat:
  "0 < chatId \<Longrightarrow> isAdmin w e chatId userId s = (truthy (TELEGRAM_BOT_TOKEN e), s)"
  by (simp add: isAdmin_def)

theorem isAdmin_private_chat_witness:
  "(0::int) < 42 \<and> isAdmin quiet_world demo_env 42 7 init_state = (True, init_state)"
  using isAdmin_private_chat [of 42 quiet_world demo_env 7 init_state]
  by (simp add: demo_env_def)

text \<open>
  C1 as stated fails: with no bot token in the environment the guard on the token comes
  first, and the private chat 42 is refused.
\<close>

theorem isAdmin_no_token_counterexample:
  "(0::int) < 42 \<and>
   \<not> fst (isAdmin quiet_world (demo_env\<lparr>TELEGRAM_BOT_TOKEN := None\<rparr>) 42 7 init_state)"
  by (simp add: isAdmin_def)

section \<open>The event-name resolver\<close>


lemma resolveEventId_Inr: "\<exists>r s'. resolveEventId w e n s = (Inr r, s')"
  by (simp add: resolveEventId_def Let_def split: option.splits sum.splits)



section \<open>The dispatcher's status codes\<close>

text \<open>
  C7. A POST request whose query parameter \<open>secret\<close> differs from a configured
  (non-empty) webhook secret is answered with 401, and the state is unchanged: the body
  is not read, no call is made, and the store is neither read nor written.
\<close>

theorem fetch_bad_secret:
  "http_method r = ''POST'' \<Longrightarrow> truthy (WEBHOOK_SECRET e) \<Longrightarrow> secret r \<noteq> WEBHOOK_SECRET e \<Longrightarrow>
   fetch w e r s = (\<lparr>status = 401, content = PlainText ''Unauthorized''\<rparr>, s)"
  by (simp add: fetch_def)

theorem fetch_bad_secret_witness:
  "http_method (post_request (Some ''wrong'') (BodyJson (Update None))) = ''POST'' \<and>
   truthy (WEBHOOK_SECRET demo_env) \<and>
   secret (post_request (Some ''wrong'') (BodyJson (Update None))) \<noteq> WEBHOOK_SECRET demo_env \<and>
   fetch quiet_world demo_env (post_request (Some ''wrong'') (BodyJson (Update None))) init_state
     = (\<lparr>status = 401, content = PlainText ''Unauthorized''\<rparr>, init_state)"
  using fetch_bad_secret [of "post_request (Some ''wrong'') (BodyJson (Update None))"
      demo_env quiet_world init_state]
  by (simp add: post_request_def demo_env_def)

text \<open>
  C8. The status of every response is 200, 401, 405 or 500, and it is 405 for every
  request that is neither a POST, nor an OPTIONS, nor a GET of \<open>/health\<close>.
\<close>

theorem fetch_status_codes:
  "status (fst (fetch w e r s)) \<in> {200, 401, 405, 500} \<and>
   (http_method r \<noteq> ''POST'' \<and> http_method r \<noteq> ''OPTIONS'' \<and>
    \<not> (http_method r = ''GET'' \<and> pathname r = ''/health'')
    \<longrightarrow> status (fst (fetch w e r s)) = 405)"
  by (simp add: fetch_def Let_def split: body.splits prod.splits option.splits)

theorem fetch_status_codes_witness:
  "status (fst (fetch quiet_world demo_env
      \<lparr>http_method = ''GET'', pathname = ''/'', secret = None, body = BodyInvalid\<rparr> init_state))
   = 405"
  using fetch_status_codes [of quiet_world demo_env
      "\<lparr>http_method = ''GET'', pathname = ''/'', secret = None, body = BodyInvalid\<rparr>" init_state]
  by simp

section \<open>Senders that are bots\<close>

text \<open>A message whose sender is a bot is ignored, whatever else it carries.\<close>

lemma handleMessage_ignores_bots:
  "chat m = Some c \<Longrightarrow> from_user m = Some u \<Longrightarrow> is_bot u \<Longrightarrow> handleMessage w e m s = (None, s)"
  by (simp add: handleMessage_def)

text \<open>A text with a command prefix is a string.\<close>

lemma text_value_string:
  "startsWith (text_of m) p \<Longrightarrow> p \<noteq> [] \<Longrightarrow> text_value m = JStr (text_of m)"
  by (cases "text_value m") (auto simp: text_of_def startsWith_def)

section \<open>The check-in command\<close>

text \<open>
  C5 (as amended). When \<open>/checkin\<close> reaches the reward trigger and the result is a
  failure whose error is absent, \<open>null\<close> or a string, the reply is chosen by the error
  text, in this order: the cooldown text when it contains \<open>cooldown\<close>; otherwise the
  event-not-found text when it contains \<open>not found\<close> or \<open>Invalid event\<close>; otherwise the
  generic failure text with the raw error (with \<open>Unknown error\<close> when the error is
  absent, \<open>null\<close> or empty). In the statement \<open>t\<close> is the error text: the error
  when it is a string, and empty when the error is absent or \<open>null\<close>. "Contains" is
  \<open>includes_str\<close>, the substring relation (\<open>includes_str_iff\<close>).
\<close>

theorem checkin_failure_reply:
  assumes "chat m = Some c" and "from_user m = Some u" and "\<not> is_bot u"
    and "new_chat_members m = None"
    and "startsWith (text_of m) ''/checkin''"
    and "read_event_id w e (CHECKIN_EVENT_ID (chat_id c)) s = (Inr (Some cid), s1)"
    and "cid \<noteq> []"
    and "triggerReward w e cid u (chat_id c) s1 = (DataObj r, s2)"
    and "\<not> success r"
    and "(error r = JUndefined \<or> error r = JNull) \<and> t = [] \<or> error r = JStr t"
  shows "handleMessage w e m s =
    (None, sendMessage e (chat_id c)
       (if includes_str t ''cooldown'' then CheckinCooldown
        else if includes_str t ''not found'' \<or> includes_str t ''Invalid event''
        then EventNotFound cid
        else CheckinFailed (if t = [] then JStr ''Unknown error'' else JStr t)) s2)"
proof -
  have tv: "text_value m = JStr (text_of m)"
    using assms(5) by (rule text_value_string) simp
  have "checkin_reply cid r =
      Inr (if includes_str t ''cooldown'' then CheckinCooldown
           else if includes_str t ''not found'' \<or> includes_str t ''Invalid event''
           then EventNotFound cid
           else CheckinFailed (if t = [] then JStr ''Unknown error'' else JStr t))"
    using assms(9,10)
    by (auto simp add: checkin_reply_def val_or_def startsWith_def split: bool.splits)
  then show ?thesis
    using assms(1-8) tv
    by (simp add: handleMessage_def handleMessage_checkin_def)
qed

theorem checkin_failure_reply_witness:
  "handleMessage (throwing_world ''cooldown active'') demo_env
     (text_message (-100) alice ''/checkin'') configured_state =
    (None, configured_state\<lparr>trace :=
       [KvGet (CHECKIN_EVENT_ID (-100)), TelegramGetMe,
        RewardSendEvent ''custom_abc123'' alice (-100) None,
        TelegramSendMessage (-100) CheckinCooldown]\<rparr>) \<and>
   handleMessage (refusing_world (JStr ''Event not found'')) demo_env
     (text_message (-100) alice ''/checkin'') configured_state =
    (None, configured_state\<lparr>trace :=
       [KvGet (CHECKIN_EVENT_ID (-100)), TelegramGetMe,
        RewardSendEvent ''custom_abc123'' alice (-100) None,
        TelegramSendMessage (-100) (EventNotFound ''custom_abc123'')]\<rparr>) \<and>
   handleMessage (refusing_world (JStr ''Rate limited'')) demo_env
     (text_message (-100) alice ''/checkin'') configured_state =
    (None, configured_state\<lparr>trace :=
       [KvGet (CHECKIN_EVENT_ID (-100)), TelegramGetMe,
        RewardSendEvent ''custom_abc123'' alice (-100) None,
        TelegramSendMessage (-100) (CheckinFailed (JStr ''Rate limited''))]\<rparr>) \<and>
   handleMessage (refusing_world JUndefined) demo_env
     (text_message (-100) alice ''/checkin'') configured_state =
    (None, configured_state\<lparr>trace :=
       [KvGet (CHECKIN_EVENT_ID (-100)), TelegramGetMe,
        RewardSendEvent ''custom_abc123'' alice (-100) None,
        TelegramSendMessage (-100) (CheckinFailed (JStr ''Unknown error''))]\<rparr>)"
proof -
  let ?m = "text_message (-100) alice ''/checkin''"
  let ?c = "\<lparr>chat_id = -100\<rparr>"
  let ?s1 = "configured_state\<lparr>trace := [KvGet (CHECKIN_EVENT_ID (-100))]\<rparr>"
  let ?s2 = "configured_state\<lparr>trace := [KvGet (CHECKIN_EVENT_ID (-100)), TelegramGetMe,
        RewardSendEvent ''custom_abc123'' alice (-100) None]\<rparr>"
  let ?r = "\<lambda>err. \<lparr>success = False, ltzDistributed = JUndefined, rewardAmount = JUndefined,
             error = err\<rparr>"
  have m: "chat ?m = Some ?c" "from_user ?m = Some alice" "\<not> is_bot alice"
    "new_chat_members ?m = None" "startsWith (text_of ?m) ''/checkin''"
    by (simp_all add: text_message_def alice_def text_of_def text_value_def val_or_def
        startsWith_def)
  have rd: "read_event_id w demo_env (CHECKIN_EVENT_ID (chat_id ?c)) configured_state
             = (Inr (Some ''custom_abc123''), ?s1)"
    if "kv_fails w = (\<lambda>t. False)" for w
    using that
    by (simp add: read_event_id_def kv_get_def demo_env_def emit_def configured_state_def)
  have t1: "triggerReward (throwing_world ''cooldown active'') demo_env ''custom_abc123'' alice
              (chat_id ?c) ?s1 = (DataObj (?r (JStr ''cooldown active'')), ?s2)"
    by (simp add: triggerReward_def getBotUsername_def demo_env_def quiet_world_def
        throwing_world_def emit_def configured_state_def val_or_def)
  have t2: "triggerReward (refusing_world err) demo_env ''custom_abc123'' alice
              (chat_id ?c) ?s1 = (DataObj (?r err), ?s2)" for err
    by (simp add: triggerReward_def getBotUsername_def demo_env_def quiet_world_def
        refusing_world_def emit_def configured_state_def)
  have k1: "kv_fails (throwing_world x) = (\<lambda>t. False)" for x
    by (simp add: throwing_world_def quiet_world_def)
  have k2: "kv_fails (refusing_world x) = (\<lambda>t. False)" for x
    by (simp add: refusing_world_def quiet_world_def)
  note a = checkin_failure_reply [OF m rd [OF k1] _ t1, where t = "''cooldown active''"]
  note b = checkin_failure_reply [OF m rd [OF k2] _ t2 [of "JStr ''Event not found''"],
      where t = "''Event not found''"]
  note c = checkin_failure_reply [OF m rd [OF k2] _ t2 [of "JStr ''Rate limited''"],
      where t = "''Rate limited''"]
  note d = checkin_failure_reply [OF m rd [OF k2] _ t2 [of JUndefined], where t = "[]"]
  show ?thesis
    using a b c d
    by (simp add: sendMessage_def demo_env_def emit_def startsWith_def)
qed

text \<open>
  C5 as stated fails for a failure result whose error is not a string: for the error
  429, a number, \<open>result.error?.includes\<close> is not a function, the handler throws and
  no reply is sent.
\<close>

theorem checkin_numeric_error_counterexample:
  "triggerReward (refusing_world (JNum 429)) demo_env ''custom_abc123'' alice (-100)
     (configured_state\<lparr>trace := [KvGet (CHECKIN_EVENT_ID (-100))]\<rparr>)
   = (DataObj \<lparr>success = False, ltzDistributed = JUndefined, rewardAmount = JUndefined,
               error = JNum 429\<rparr>,
      configured_state\<lparr>trace := [KvGet (CHECKIN_EVENT_ID (-100)), TelegramGetMe,
        RewardSendEvent ''custom_abc123'' alice (-100) None]\<rparr>) \<and>
   handleMessage (refusing_world (JNum 429)) demo_env
     (text_message (-100) alice ''/checkin'') configured_state
   = (Some TypeError,
      configured_state\<lparr>trace := [KvGet (CHECKIN_EVENT_ID (-100)), TelegramGetMe,
        RewardSendEvent ''custom_abc123'' alice (-100) None]\<rparr>)"
  by (simp add: eval_defs refusing_world_def quiet_world_def configured_state_def)

section \<open>Join events\<close>

text \<open>
  C9 (as amended). A message from a sender that is not a bot and that carries
  \<open>new_chat_members\<close> (any list, also an empty one or one of bots only), in a chat with no
  stored join identifier (or without the store binding), with the read of the store
  succeeding, takes the join branch only, whatever its text: the handler completes, the
  store and the cache are unchanged, and the actions added are the read of the store
  (with the binding) and one \<open>sendMessage\<close> of the not-configured text, posted when the bot
  token is configured. No reward is triggered and nothing is written.
\<close>

theorem join_not_configured:
  assumes "chat m = Some c" and "from_user m = Some u" and "\<not> is_bot u"
    and "new_chat_members m = Some ms"
    and "TELEGRAM_BOT_KV e \<longrightarrow>
           \<not> kv_fails w (trace s @ [KvGet (JOIN_EVENT_ID (chat_id c))]) \<and>
           \<not> truthy (kv s (JOIN_EVENT_ID (chat_id c)))"
  shows "\<exists>s'. handleMessage w e m s = (None, s') \<and>
           kv s' = kv s \<and> cachedBotUsername s' = cachedBotUsername s \<and>
           trace s' = trace s
             @ (if TELEGRAM_BOT_KV e then [KvGet (JOIN_EVENT_ID (chat_id c))] else [])
             @ (if truthy (TELEGRAM_BOT_TOKEN e)
                then [TelegramSendMessage (chat_id c) JoinNotConfigured] else [])"
  using assms
  by (auto simp add: handleMessage_def handleMessage_join_def read_event_id_def kv_get_def
      sendMessage_def emit_def Let_def)

theorem join_not_configured_witness:
  "handleMessage quiet_world demo_env
     (join_message (-100) alice [] \<lparr>msg_text := JStr ''/start''\<rparr>) init_state
   = (None, init_state\<lparr>trace := [KvGet (JOIN_EVENT_ID (-100)),
                                   TelegramSendMessage (-100) JoinNotConfigured]\<rparr>)"
  using join_not_configured [of "join_message (-100) alice [] \<lparr>msg_text := JStr ''/start''\<rparr>"
      "\<lparr>chat_id = -100\<rparr>" alice "Members []" demo_env quiet_world init_state]
  by (auto simp add: join_message_def alice_def demo_env_def quiet_world_def init_state_def)

text \<open>
  C9 as stated fails: a message whose sender is a bot (an anonymous group admin is sent
  as the bot \<open>GroupAnonymousBot\<close>) is ignored before the join branch, and nothing is sent
  (in general, by \<open>handleMessage_ignores_bots\<close>).
\<close>

theorem join_from_bot_counterexample:
  "new_chat_members (join_message (-100) anonymous_admin [alice]) = Some (Members [Some alice]) \<and>
   kv init_state (JOIN_EVENT_ID (-100)) = None \<and>
   handleMessage quiet_world demo_env (join_message (-100) anonymous_admin [alice]) init_state
     = (None, init_state)"
  by (simp add: handleMessage_def join_message_def anonymous_admin_def init_state_def)

section \<open>What the operations leave unchanged\<close>

text \<open>
  The command prefixes exclude one another in the order the handler tests them; each
  operation adds to the trace only its own calls and does not touch the store.
\<close>

lemma config_checkin_prefix:
  "startsWith t ''/config_checkin'' \<Longrightarrow>
   \<not> startsWith t ''/checkin'' \<and> \<not> startsWith t ''/balance'' \<and> \<not> startsWith t ''/ltz''"
  by (auto simp: startsWith_iff)

lemma config_join_prefix:
  "startsWith t ''/config_join'' \<Longrightarrow>
   \<not> startsWith t ''/checkin'' \<and> \<not> startsWith t ''/balance'' \<and> \<not> startsWith t ''/ltz'' \<and>
   \<not> startsWith t ''/config_checkin''"
  by (auto simp: startsWith_iff)

lemma sendMessage_effect:
  "kv (sendMessage e c t s) = kv s \<and>
   cachedBotUsername (sendMessage e c t s) = cachedBotUsername s \<and>
   trace (sendMessage e c t s) =
     trace s @ (if truthy (TELEGRAM_BOT_TOKEN e) then [TelegramSendMessage c t] else [])"
  by (simp add: sendMessage_def emit_def)

lemma isAdmin_effect:
  "isAdmin w e c uid s = (b, s') \<Longrightarrow>
   kv s' = kv s \<and> cachedBotUsername s' = cachedBotUsername s \<and>
   (\<exists>xs. trace s' = trace s @ xs \<and> set xs \<subseteq> {TelegramGetChatMember c uid})"
  by (auto simp: isAdmin_def emit_def Let_def split: if_splits member_resp.splits)

lemma isAdmin_token: "isAdmin w e c uid s = (True, s') \<Longrightarrow> truthy (TELEGRAM_BOT_TOKEN e)"
  by (auto simp: isAdmin_def split: if_splits)

lemma resolveEventId_effect:
  "resolveEventId w e n s = (r, s') \<Longrightarrow>
   kv s' = kv s \<and> cachedBotUsername s' = cachedBotUsername s \<and>
   (\<exists>xs. trace s' = trace s @ xs \<and> set xs \<subseteq> {EventConfigFetch (api_url e) (case BRAND_ID e of Some b \<Rightarrow> b | None \<Rightarrow> [])})"
  by (auto simp: resolveEventId_def emit_def Let_def split: if_splits option.splits sum.splits)

lemma getBotUsername_effect:
  "getBotUsername w e s = (b, s') \<Longrightarrow>
   kv s' = kv s \<and> (\<exists>xs. trace s' = trace s @ xs \<and> set xs \<subseteq> {TelegramGetMe})"
  by (auto simp: getBotUsername_def emit_def Let_def
      split: if_splits getme_resp.splits option.splits)

lemma triggerReward_effect:
  assumes "triggerReward w e ev u c s = (r, s')"
  shows "kv s' = kv s \<and>
   (\<exists>xs. trace s' = trace s @ xs \<and>
      (\<forall>a \<in> set xs. a = TelegramGetMe \<or> (\<exists>b. a = RewardSendEvent ev u c b)) \<and>
      (truthy (BRAND_ID e) \<longrightarrow> (\<exists>b. RewardSendEvent ev u c b \<in> set xs)))"
proof (cases "truthy (BRAND_ID e)")
  case False
  with assms show ?thesis by (auto simp: triggerReward_def)
next
  case True
  obtain b s1 where g: "getBotUsername w e s = (b, s1)" by (cases "getBotUsername w e s")
  from getBotUsername_effect [OF g] obtain xs where
    xs: "kv s1 = kv s" "trace s1 = trace s @ xs" "set xs \<subseteq> {TelegramGetMe}" by blast
  from assms True g have s': "s' = emit (RewardSendEvent ev u c b) s1"
    by (auto simp: triggerReward_def Let_def split: send_event_resp.splits)
  have "trace s' = trace s @ (xs @ [RewardSendEvent ev u c b])"
    using s' xs by (simp add: emit_def)
  moreover have "\<forall>a \<in> set (xs @ [RewardSendEvent ev u c b]).
      a = TelegramGetMe \<or> (\<exists>b. a = RewardSendEvent ev u c b)"
    using xs(3) by auto
  moreover have "\<exists>b'. RewardSendEvent ev u c b' \<in> set (xs @ [RewardSendEvent ev u c b])"
    by auto
  moreover have "kv s' = kv s" using s' xs by (simp add: emit_def)
  ultimately show ?thesis by blast
qed

lemma new_actions_append: "trace s' = trace s @ xs \<Longrightarrow> new_actions s s' = xs"
  by (simp add: new_actions_def)

section \<open>Configuration commands\<close>

text \<open>
  Whatever a configuration command writes to the store, it writes under the key of the
  command and chat, and the value is the one the resolver returned for the second part
  of the text (the string \<open>undefined\<close> when that is \<open>undefined\<close>).
\<close>

lemma handleMessage_config_writes:
  assumes h: "handleMessage_config w e k c u t s = (x, s')"
    and put: "KvPut key v \<in> set (new_actions s s')"
  shows "\<exists>sa r sb. isAdmin w e c (user_id u) s = (True, sa) \<and>
           2 \<le> length (split_on CHR '' '' t) \<and>
           resolveEventId w e (split_on CHR '' '' t ! 1) sa = (Inr r, sb) \<and>
           v = stored_string r \<and> key = config_key k c"
proof -
  obtain b sa where a: "isAdmin w e c (user_id u) s = (b, sa)"
    by (cases "isAdmin w e c (user_id u) s")
  obtain r sb where r: "resolveEventId w e (split_on CHR '' '' t ! 1) sa = (Inr r, sb)"
    using resolveEventId_Inr by blast
  from isAdmin_effect [OF a] obtain xs where
    xs: "trace sa = trace s @ xs" "set xs \<subseteq> {TelegramGetChatMember c (user_id u)}" by blast
  from resolveEventId_effect [OF r] obtain ys where
    ys: "trace sb = trace sa @ ys"
      "set ys \<subseteq> {EventConfigFetch (api_url e) (case BRAND_ID e of Some b \<Rightarrow> b | None \<Rightarrow> [])}"
    by blast
  let ?sent = "\<lambda>tx. if truthy (TELEGRAM_BOT_TOKEN e) then [TelegramSendMessage c tx] else []"
  have early: False if "s' = sendMessage e c tx sa" for tx
  proof -
    have "trace s' = trace s @ (xs @ ?sent tx)" using that xs by (simp add: sendMessage_effect)
    from new_actions_append [OF this] put xs(2) show False by (auto split: if_splits)
  qed
  have late: False if "s' = sendMessage e c tx sb" for tx
  proof -
    have "trace s' = trace s @ (xs @ ys @ ?sent tx)"
      using that xs ys by (auto simp add: sendMessage_effect)
    from new_actions_append [OF this] put xs(2) ys(2) show False by (auto split: if_splits)
  qed
  show ?thesis
  proof (cases "b \<and> 2 \<le> length (split_on CHR '' '' t) \<and> TELEGRAM_BOT_KV e")
    case False
    then consider "\<not> b" | "b" "length (split_on CHR '' '' t) < 2"
      | "b" "2 \<le> length (split_on CHR '' '' t)" "\<not> TELEGRAM_BOT_KV e" by linarith
    then show ?thesis
    proof cases
      case 1
      with h a have "s' = sendMessage e c OnlyAdmins sa"
        by (simp add: handleMessage_config_def)
      with early show ?thesis by blast
    next
      case 2
      with h a have "s' = sendMessage e c (ConfigUsage k) sa"
        by (simp add: handleMessage_config_def Let_def)
      with early show ?thesis by blast
    next
      case 3
      with h a r have "s' = sendMessage e c KvNotConfigured sb"
        by (simp add: handleMessage_config_def Let_def)
      with late show ?thesis by blast
    qed
  next
    case True
    let ?p = "KvPut (config_key k c) (stored_string r)"
    have "\<exists>zs. trace s' = trace s @ (xs @ ys @ ?p # zs) \<and>
            (\<forall>a \<in> set zs. \<exists>tx. a = TelegramSendMessage c tx)"
      using h a r True xs ys
      by (auto simp add: handleMessage_config_def Let_def kv_put_def emit_def
          sendMessage_effect split: if_splits)
    then obtain zs where zs: "trace s' = trace s @ (xs @ ys @ ?p # zs)"
      "\<forall>a \<in> set zs. \<exists>tx. a = TelegramSendMessage c tx" by blast
    from new_actions_append [OF zs(1)] put xs(2) ys(2) zs(2)
    have "key = config_key k c \<and> v = stored_string r" by auto
    with a r True show ?thesis by auto
  qed
qed

text \<open>
  C2 at a failing input. With two spaces after the command, \<open>text.split(" ")\<close> has an
  empty second part; the length check passes, the resolver is asked for the empty name
  and returns it, and the empty string is written to the store.
\<close>

theorem config_empty_token:
  "split_on CHR '' '' ''/config_checkin  daily_checkin''
     = [''/config_checkin'', [], ''daily_checkin''] \<and>
   handleMessage listing_world demo_env
     (text_message (-100) alice ''/config_checkin  daily_checkin'') init_state
   = (None,
      \<lparr>kv = [CHECKIN_EVENT_ID (-100) \<mapsto> []], cachedBotUsername = None,
       trace = [TelegramGetChatMember (-100) 7,
                EventConfigFetch ''https://api.loyalteez.app'' ''0xbrand'',
                KvPut (CHECKIN_EVENT_ID (-100)) [],
                TelegramSendMessage (-100) (ConfigUpdated Checkin [])]\<rparr>)"
  by (simp add: handleMessage_def handleMessage_config_def text_message_def alice_def
      init_state_def demo_env_def listing_world_def startsWith_def isAdmin_def text_value_def
      val_or_def stored_string_def resolveEventId_def resolve_try_def api_url_def kv_put_def
      sendMessage_def emit_def escapeHtml_def)

section \<open>Without the store binding\<close>

lemma handleMessage_config_unbound:
  assumes "\<not> TELEGRAM_BOT_KV e"
    and "isAdmin w e c (user_id u) s = (True, sa)"
    and "2 \<le> length (split_on CHR '' '' t)"
  shows "\<exists>r sb. resolveEventId w e (split_on CHR '' '' t ! 1) sa = (Inr r, sb) \<and>
           handleMessage_config w e k c u t s = (None, sendMessage e c KvNotConfigured sb)"
proof -
  obtain r sb where r: "resolveEventId w e (split_on CHR '' '' t ! 1) sa = (Inr r, sb)"
    using resolveEventId_Inr by blast
  then have "handleMessage_config w e k c u t s = (None, sendMessage e c KvNotConfigured sb)"
    using assms by (simp add: handleMessage_config_def Let_def)
  with r show ?thesis by blast
qed

lemma handleMessage_is_config:
  assumes "chat m = Some c" and "from_user m = Some u" and "\<not> is_bot u"
    and "new_chat_members m = None"
    and "startsWith (text_of m) ''/config_checkin'' \<or> startsWith (text_of m) ''/config_join''"
  shows "\<exists>k. handleMessage w e m s = handleMessage_config w e k (chat_id c) u (text_of m) s"
proof -
  have "text_value m = JStr (text_of m)"
    using assms(5) text_value_string [of m "''/config_checkin''"]
      text_value_string [of m "''/config_join''"] by auto
  then show ?thesis
    using assms config_checkin_prefix [of "text_of m"] config_join_prefix [of "text_of m"]
    by (auto simp add: handleMessage_def Let_def)
qed

text \<open>
  Without the binding the read of the configured identifier is \<open>null\<close> whatever the
  store holds, and nothing is added to the trace.
\<close>

lemma read_event_id_unbound:
  "\<not> TELEGRAM_BOT_KV e \<Longrightarrow> read_event_id w e k s = (Inr None, s)"
  by (simp add: read_event_id_def)

lemma handleMessage_join_unbound:
  "\<not> TELEGRAM_BOT_KV e \<Longrightarrow>
   handleMessage_join w e c ms s = (None, sendMessage e c JoinNotConfigured s)"
  by (simp add: handleMessage_join_def read_event_id_unbound)

lemma handleMessage_checkin_unbound:
  "\<not> TELEGRAM_BOT_KV e \<Longrightarrow>
   handleMessage_checkin w e c u s = (None, sendMessage e c CheckinNotConfigured s)"
  by (simp add: handleMessage_checkin_def read_event_id_unbound)

text \<open>With the binding, a store that holds no identifier for the chat, and a read that succeeds.\<close>

lemma handleMessage_join_empty:
  "TELEGRAM_BOT_KV e \<Longrightarrow> \<not> truthy (kv s (JOIN_EVENT_ID c)) \<Longrightarrow>
   \<not> kv_fails w (trace s @ [KvGet (JOIN_EVENT_ID c)]) \<Longrightarrow>
   handleMessage_join w e c ms s
     = (None, sendMessage e c JoinNotConfigured (emit (KvGet (JOIN_EVENT_ID c)) s))"
  by (simp add: handleMessage_join_def read_event_id_def kv_get_def emit_def Let_def)

lemma handleMessage_checkin_empty:
  "TELEGRAM_BOT_KV e \<Longrightarrow> \<not> truthy (kv s (CHECKIN_EVENT_ID c)) \<Longrightarrow>
   \<not> kv_fails w (trace s @ [KvGet (CHECKIN_EVENT_ID c)]) \<Longrightarrow>
   handleMessage_checkin w e c u s
     = (None, sendMessage e c CheckinNotConfigured (emit (KvGet (CHECKIN_EVENT_ID c)) s))"
  by (simp add: handleMessage_checkin_def read_event_id_def kv_get_def emit_def Let_def)

text \<open>
  C10. Without the binding \<open>TELEGRAM_BOT_KV\<close>, whatever the store holds:
  \<^item> a join event from a sender that is not a bot is answered with the join-not-configured
    text and nothing else, and a \<open>/checkin\<close> with the check-in-not-configured text and
    nothing else;
  \<^item> for every message that is a join event or a \<open>/checkin\<close>, the outcome, the calls to
    the remote services and the cache are those of the same message handled with the
    binding in a state \<open>s0\<close> that differs only in the store and holds no identifier for the
    chat (the read succeeding); neither run changes the store;
  \<^item> an authorized \<open>/config_checkin\<close> or \<open>/config_join\<close> with an argument first runs the
    resolver, then sends the storage-not-configured text, with the store unchanged and no
    operation on the store among its actions.
\<close>

theorem kv_binding_absent:
  assumes "\<not> TELEGRAM_BOT_KV e"
  shows
   "(\<forall>c u. chat m = Some c \<longrightarrow> from_user m = Some u \<longrightarrow> \<not> is_bot u \<longrightarrow>
       (new_chat_members m \<noteq> None \<longrightarrow>
          handleMessage w e m s = (None, sendMessage e (chat_id c) JoinNotConfigured s)) \<and>
       (new_chat_members m = None \<longrightarrow> startsWith (text_of m) ''/checkin'' \<longrightarrow>
          handleMessage w e m s = (None, sendMessage e (chat_id c) CheckinNotConfigured s))) \<and>
    ((new_chat_members m \<noteq> None \<or> startsWith (text_of m) ''/checkin'') \<longrightarrow>
     (\<forall>s0. trace s0 = trace s \<longrightarrow> cachedBotUsername s0 = cachedBotUsername s \<longrightarrow>
        (\<forall>c. chat m = Some c \<longrightarrow>
           \<not> truthy (kv s0 (JOIN_EVENT_ID (chat_id c))) \<and>
           \<not> truthy (kv s0 (CHECKIN_EVENT_ID (chat_id c)))) \<longrightarrow>
        (\<forall>t. \<not> kv_fails w t) \<longrightarrow>
        (\<exists>x s1 s2. handleMessage w e m s = (x, s1) \<and>
           handleMessage w (e\<lparr>TELEGRAM_BOT_KV := True\<rparr>) m s0 = (x, s2) \<and>
           kv s1 = kv s \<and> kv s2 = kv s0 \<and>
           cachedBotUsername s1 = cachedBotUsername s2 \<and>
           outbound (trace s1) = outbound (trace s2)))) \<and>
    (\<forall>c u sa. chat m = Some c \<longrightarrow> from_user m = Some u \<longrightarrow> \<not> is_bot u \<longrightarrow>
       new_chat_members m = None \<longrightarrow>
       (startsWith (text_of m) ''/config_checkin'' \<or> startsWith (text_of m) ''/config_join'') \<longrightarrow>
       isAdmin w e (chat_id c) (user_id u) s = (True, sa) \<longrightarrow>
       2 \<le> length (split_on CHR '' '' (text_of m)) \<longrightarrow>
       (\<exists>r sb s'. resolveEventId w e (split_on CHR '' '' (text_of m) ! 1) sa = (Inr r, sb) \<and>
          handleMessage w e m s = (None, s') \<and>
          trace s' = trace sb @ [TelegramSendMessage (chat_id c) KvNotConfigured] \<and>
          kv s' = kv s \<and>
          list_all (\<lambda>a. \<not> is_store_action a) (new_actions s s')))"
proof (intro conjI allI impI)
  fix c u
  assume m: "chat m = Some c" "from_user m = Some u" "\<not> is_bot u"
  {
    assume "new_chat_members m \<noteq> None"
    then show "handleMessage w e m s = (None, sendMessage e (chat_id c) JoinNotConfigured s)"
      using m assms by (auto simp add: handleMessage_def handleMessage_join_unbound)
  }
  {
    assume n: "new_chat_members m = None" and t: "startsWith (text_of m) ''/checkin''"
    have "text_value m = JStr (text_of m)" using t by (rule text_value_string) simp
    then show "handleMessage w e m s
                 = (None, sendMessage e (chat_id c) CheckinNotConfigured s)"
      using m n t assms by (simp add: handleMessage_def handleMessage_checkin_unbound)
  }
next
  fix s0 :: state
  assume br: "new_chat_members m \<noteq> None \<or> startsWith (text_of m) ''/checkin''"
    and tr: "trace s0 = trace s" and ca: "cachedBotUsername s0 = cachedBotUsername s"
    and nokey: "\<forall>c. chat m = Some c \<longrightarrow>
        \<not> truthy (kv s0 (JOIN_EVENT_ID (chat_id c))) \<and>
        \<not> truthy (kv s0 (CHECKIN_EVENT_ID (chat_id c)))"
    and nofail: "\<forall>t. \<not> kv_fails w t"
  let ?e = "e\<lparr>TELEGRAM_BOT_KV := True\<rparr>"
  let ?goal = "\<exists>x s1 s2. handleMessage w e m s = (x, s1) \<and>
           handleMessage w ?e m s0 = (x, s2) \<and>
           kv s1 = kv s \<and> kv s2 = kv s0 \<and>
           cachedBotUsername s1 = cachedBotUsername s2 \<and>
           outbound (trace s1) = outbound (trace s2)"
  show ?goal
  proof (cases "\<exists>c u. chat m = Some c \<and> from_user m = Some u \<and> \<not> is_bot u")
    case False
    then have "handleMessage w e m s = (Some TypeError, s) \<and>
               handleMessage w ?e m s0 = (Some TypeError, s0) \<or>
               handleMessage w e m s = (None, s) \<and> handleMessage w ?e m s0 = (None, s0)"
      by (auto simp add: handleMessage_def split: option.splits)
    then show ?thesis using tr ca by auto
  next
    case True
    then obtain c u where m: "chat m = Some c" "from_user m = Some u" "\<not> is_bot u" by blast
    have bound: "TELEGRAM_BOT_KV ?e" by simp
    have tok: "sendMessage ?e = sendMessage e" by (auto simp add: sendMessage_def fun_eq_iff)
    show ?thesis
    proof (cases "new_chat_members m")
      case (Some ms)
      have 1: "handleMessage w e m s
                 = (None, sendMessage e (chat_id c) JoinNotConfigured s)"
        using m Some assms by (simp add: handleMessage_def handleMessage_join_unbound)
      have 2: "handleMessage w ?e m s0
                 = (None, sendMessage e (chat_id c) JoinNotConfigured
                            (emit (KvGet (JOIN_EVENT_ID (chat_id c))) s0))"
        using m Some nokey nofail handleMessage_join_empty [OF bound, of s0 "chat_id c" w ms]
        by (simp add: handleMessage_def tok)
      show ?thesis
        unfolding 1 2 using tr ca
        by (simp add: sendMessage_effect emit_def outbound_def)
    next
      case None
      with br have t: "startsWith (text_of m) ''/checkin''" by simp
      have tv: "text_value m = JStr (text_of m)" using t by (rule text_value_string) simp
      have 1: "handleMessage w e m s
                 = (None, sendMessage e (chat_id c) CheckinNotConfigured s)"
        using m None t tv assms by (simp add: handleMessage_def handleMessage_checkin_unbound)
      have 2: "handleMessage w ?e m s0
                 = (None, sendMessage e (chat_id c) CheckinNotConfigured
                            (emit (KvGet (CHECKIN_EVENT_ID (chat_id c))) s0))"
        using m None t tv nokey nofail
          handleMessage_checkin_empty [OF bound, of s0 "chat_id c" w u]
        by (simp add: handleMessage_def tok)
      show ?thesis
        unfolding 1 2 using tr ca
        by (simp add: sendMessage_effect emit_def outbound_def)
    qed
  qed
next
  fix c u sa
  assume m: "chat m = Some c" "from_user m = Some u" "\<not> is_bot u" "new_chat_members m = None"
    and cmd: "startsWith (text_of m) ''/config_checkin'' \<or> startsWith (text_of m) ''/config_join''"
    and adm: "isAdmin w e (chat_id c) (user_id u) s = (True, sa)"
    and len: "2 \<le> length (split_on CHR '' '' (text_of m))"
  obtain k where k: "handleMessage w e m s = handleMessage_config w e k (chat_id c) u (text_of m) s"
    using handleMessage_is_config [OF m cmd] by blast
  obtain r sb where r: "resolveEventId w e (split_on CHR '' '' (text_of m) ! 1) sa = (Inr r, sb)"
    and h: "handleMessage_config w e k (chat_id c) u (text_of m) s
              = (None, sendMessage e (chat_id c) KvNotConfigured sb)"
    using handleMessage_config_unbound [OF assms adm len] by blast
  let ?s' = "sendMessage e (chat_id c) KvNotConfigured sb"
  have tok: "truthy (TELEGRAM_BOT_TOKEN e)" using adm by (rule isAdmin_token)
  from isAdmin_effect [OF adm] obtain xs where
    xs: "kv sa = kv s" "trace sa = trace s @ xs" "set xs \<subseteq> {TelegramGetChatMember (chat_id c) (user_id u)}"
    by blast
  from resolveEventId_effect [OF r] obtain ys where
    ys: "kv sb = kv sa" "trace sb = trace sa @ ys"
      "set ys \<subseteq> {EventConfigFetch (api_url e) (case BRAND_ID e of Some b \<Rightarrow> b | None \<Rightarrow> [])}"
    by blast
  have tr: "trace ?s' = trace sb @ [TelegramSendMessage (chat_id c) KvNotConfigured]"
    using tok by (simp add: sendMessage_effect)
  have kvs: "kv ?s' = kv s" using xs ys by (simp add: sendMessage_effect)
  have "trace ?s' = trace s @ (xs @ ys @ [TelegramSendMessage (chat_id c) KvNotConfigured])"
    using tr xs ys by simp
  then have na: "new_actions s ?s' = xs @ ys @ [TelegramSendMessage (chat_id c) KvNotConfigured]"
    by (rule new_actions_append)
  have "list_all (\<lambda>a. \<not> is_store_action a) (new_actions s ?s')"
    unfolding na using xs(3) ys(3) by (auto simp: list_all_iff)
  with r k h tr kvs
  show "\<exists>r sb s'. resolveEventId w e (split_on CHR '' '' (text_of m) ! 1) sa = (Inr r, sb) \<and>
          handleMessage w e m s = (None, s') \<and>
          trace s' = trace sb @ [TelegramSendMessage (chat_id c) KvNotConfigured] \<and>
          kv s' = kv s \<and>
          list_all (\<lambda>a. \<not> is_store_action a) (new_actions s s')"
    by auto
qed

theorem kv_binding_absent_witness:
  "\<not> TELEGRAM_BOT_KV unbound_env \<and>
   kv configured_state (CHECKIN_EVENT_ID (-100)) = Some ''custom_abc123'' \<and>
   handleMessage listing_world unbound_env (text_message (-100) alice ''/checkin'')
       configured_state
     = (None, configured_state\<lparr>trace := [TelegramSendMessage (-100) CheckinNotConfigured]\<rparr>) \<and>
   handleMessage listing_world (unbound_env\<lparr>TELEGRAM_BOT_KV := True\<rparr>)
       (text_message (-100) alice ''/checkin'') init_state
     = (None, init_state\<lparr>trace := [KvGet (CHECKIN_EVENT_ID (-100)),
                                     TelegramSendMessage (-100) CheckinNotConfigured]\<rparr>) \<and>
   handleMessage listing_world unbound_env (join_message (-100) alice [bob]) configured_state
     = (None, configured_state\<lparr>trace := [TelegramSendMessage (-100) JoinNotConfigured]\<rparr>) \<and>
   isAdmin listing_world unbound_env (-100) 7 init_state
     = (True, init_state\<lparr>trace := [TelegramGetChatMember (-100) 7]\<rparr>) \<and>
   handleMessage listing_world unbound_env
       (text_message (-100) alice ''/config_checkin daily_checkin'') init_state
     = (None, init_state\<lparr>trace := [TelegramGetChatMember (-100) 7,
                                     EventConfigFetch ''https://api.loyalteez.app'' ''0xbrand'',
                                     TelegramSendMessage (-100) KvNotConfigured]\<rparr>)"
  using kv_binding_absent [of unbound_env "text_message (-100) alice ''/checkin''"
      listing_world configured_state]
    kv_binding_absent [of unbound_env "join_message (-100) alice [bob]"
      listing_world configured_state]
    kv_binding_absent [of unbound_env "text_message (-100) alice ''/config_checkin daily_checkin''"
      listing_world init_state]
  by (simp add: eval_defs handleMessage_join_def join_message_def unbound_env_def
      configured_state_def)

section \<open>Configuration, then check-in\<close>

lemma handleMessage_config_stores:
  assumes "TELEGRAM_BOT_KV e"
    and "isAdmin w e c (user_id a) s = (True, sa)"
    and "2 \<le> length (split_on CHR '' '' t)"
    and "resolveEventId w e (split_on CHR '' '' t ! 1) sa = (Inr (Some R), sb)"
    and "\<not> kv_fails w (trace sb @ [KvPut (config_key k c) R])"
  shows "\<exists>s1. handleMessage_config w e k c a t s = (None, s1) \<and> kv s1 (config_key k c) = Some R"
  using assms
  by (simp add: handleMessage_config_def kv_put_def stored_string_def emit_def Let_def
      sendMessage_effect)

lemma handleMessage_checkin_stored:
  assumes "TELEGRAM_BOT_KV e"
    and "kv s2 (CHECKIN_EVENT_ID c) = Some R" and "R \<noteq> []"
    and "\<not> kv_fails w (trace s2 @ [KvGet (CHECKIN_EVENT_ID c)])"
    and "triggerReward w e R u c (emit (KvGet (CHECKIN_EVENT_ID c)) s2) = (res, s3)"
  shows "handleMessage_checkin w e c u s2 =
           (case res of
              DataNull \<Rightarrow> (Some TypeError, s3)
            | DataObj r \<Rightarrow>
                (case checkin_reply R r of
                   Inl ex \<Rightarrow> (Some ex, s3)
                 | Inr t \<Rightarrow> (None, sendMessage e c t s3)))"
  using assms
  by (simp add: handleMessage_checkin_def read_event_id_def kv_get_def emit_def Let_def
      split: reward_data.splits)

text \<open>
  C4 (as amended). With the store bound and its operations succeeding: when an admin's
  \<open>/config_checkin X\<close> resolves \<open>X\<close> to a non-empty identifier \<open>R\<close>, the handler
  completes and the store holds \<open>R\<close> for the chat; and in every later state in which the
  store still holds \<open>R\<close>, a \<open>/checkin\<close> from any sender that is not a bot calls
  \<open>triggerReward\<close> with exactly \<open>R\<close> and replies from its result (an exception
  escapes instead when the result is \<open>null\<close> or choosing the reply throws). The actions of that
  second run contain no listing query (the resolver does not run), and with a brand
  identifier configured they contain the call of \<open>sendEvent\<close> with \<open>R\<close>.
\<close>

theorem config_checkin_round_trip:
  assumes "chat m1 = Some c" and "from_user m1 = Some a" and "\<not> is_bot a"
    and "new_chat_members m1 = None"
    and "startsWith (text_of m1) ''/config_checkin''"
    and "TELEGRAM_BOT_KV e"
    and "isAdmin w e (chat_id c) (user_id a) s = (True, sa)"
    and "2 \<le> length (split_on CHR '' '' (text_of m1))"
    and "resolveEventId w e (split_on CHR '' '' (text_of m1) ! 1) sa = (Inr (Some R), sb)"
    and "R \<noteq> []"
    and "\<not> kv_fails w (trace sb @ [KvPut (CHECKIN_EVENT_ID (chat_id c)) R])"
    and "chat m2 = Some c" and "from_user m2 = Some u" and "\<not> is_bot u"
    and "new_chat_members m2 = None"
    and "startsWith (text_of m2) ''/checkin''"
  shows "\<exists>s1. handleMessage w e m1 s = (None, s1) \<and>
           kv s1 (CHECKIN_EVENT_ID (chat_id c)) = Some R \<and>
           (\<forall>s2. kv s2 (CHECKIN_EVENT_ID (chat_id c)) = Some R \<longrightarrow>
              \<not> kv_fails w (trace s2 @ [KvGet (CHECKIN_EVENT_ID (chat_id c))]) \<longrightarrow>
              (\<exists>res s3 s4.
                 triggerReward w e R u (chat_id c)
                   (emit (KvGet (CHECKIN_EVENT_ID (chat_id c))) s2) = (res, s3) \<and>
                 handleMessage w e m2 s2 =
                   (case res of
                      DataNull \<Rightarrow> Some TypeError
                    | DataObj r \<Rightarrow>
                        (case checkin_reply R r of Inl ex \<Rightarrow> Some ex | Inr t \<Rightarrow> None),
                    s4) \<and>
                 s4 = (case res of
                         DataNull \<Rightarrow> s3
                       | DataObj r \<Rightarrow>
                           (case checkin_reply R r of
                              Inl ex \<Rightarrow> s3
                            | Inr t \<Rightarrow> sendMessage e (chat_id c) t s3)) \<and>
                 list_all (\<lambda>a. \<not> is_listing_query a) (new_actions s2 s4) \<and>
                 (truthy (BRAND_ID e) \<longrightarrow>
                    (\<exists>b. RewardSendEvent R u (chat_id c) b \<in> set (new_actions s2 s4)))))"
proof -
  have tv1: "text_value m1 = JStr (text_of m1)"
    using assms(5) by (rule text_value_string) simp
  have tv2: "text_value m2 = JStr (text_of m2)"
    using assms(16) by (rule text_value_string) simp
  have h1: "handleMessage w e m1 s
              = handleMessage_config w e Checkin (chat_id c) a (text_of m1) s"
    using assms(1-5) tv1 config_checkin_prefix [of "text_of m1"]
    by (simp add: handleMessage_def Let_def)
  obtain s1 where s1: "handleMessage w e m1 s = (None, s1)"
    "kv s1 (CHECKIN_EVENT_ID (chat_id c)) = Some R"
    using handleMessage_config_stores [of e w "chat_id c" a s sa "text_of m1" R sb Checkin]
      assms(6-9,11) h1 by auto
  have h2: "\<And>s2. handleMessage w e m2 s2 = handleMessage_checkin w e (chat_id c) u s2"
    using assms(12-16) tv2 by (simp add: handleMessage_def Let_def)
  have "\<exists>res s3 s4.
          triggerReward w e R u (chat_id c) (emit (KvGet (CHECKIN_EVENT_ID (chat_id c))) s2)
            = (res, s3) \<and>
          handleMessage w e m2 s2 =
            (case res of
               DataNull \<Rightarrow> Some TypeError
             | DataObj r \<Rightarrow>
                 (case checkin_reply R r of Inl ex \<Rightarrow> Some ex | Inr t \<Rightarrow> None),
             s4) \<and>
          s4 = (case res of
                  DataNull \<Rightarrow> s3
                | DataObj r \<Rightarrow>
                    (case checkin_reply R r of
                       Inl ex \<Rightarrow> s3
                     | Inr t \<Rightarrow> sendMessage e (chat_id c) t s3)) \<and>
          list_all (\<lambda>a. \<not> is_listing_query a) (new_actions s2 s4) \<and>
          (truthy (BRAND_ID e) \<longrightarrow>
             (\<exists>b. RewardSendEvent R u (chat_id c) b \<in> set (new_actions s2 s4)))"
    if kvR: "kv s2 (CHECKIN_EVENT_ID (chat_id c)) = Some R"
      and ok: "\<not> kv_fails w (trace s2 @ [KvGet (CHECKIN_EVENT_ID (chat_id c))])"
    for s2
  proof -
    let ?k = "KvGet (CHECKIN_EVENT_ID (chat_id c))"
    obtain res s3 where t: "triggerReward w e R u (chat_id c) (emit ?k s2) = (res, s3)"
      by (cases "triggerReward w e R u (chat_id c) (emit ?k s2)")
    define s4 where "s4 = (case res of
                  DataNull \<Rightarrow> s3
                | DataObj r \<Rightarrow>
                    (case checkin_reply R r of
                       Inl ex \<Rightarrow> s3
                     | Inr t \<Rightarrow> sendMessage e (chat_id c) t s3))"
    have hm: "handleMessage w e m2 s2 =
            (case res of
               DataNull \<Rightarrow> Some TypeError
             | DataObj r \<Rightarrow>
                 (case checkin_reply R r of Inl ex \<Rightarrow> Some ex | Inr t \<Rightarrow> None),
             s4)"
      using handleMessage_checkin_stored [OF assms(6) kvR assms(10) ok t] h2
      by (simp add: s4_def split: reward_data.splits sum.splits)
    from triggerReward_effect [OF t] obtain xs where
      xs: "trace s3 = trace (emit ?k s2) @ xs"
        "\<forall>a \<in> set xs. a = TelegramGetMe \<or> (\<exists>b. a = RewardSendEvent R u (chat_id c) b)"
        "truthy (BRAND_ID e) \<longrightarrow> (\<exists>b. RewardSendEvent R u (chat_id c) b \<in> set xs)"
      by blast
    have "\<exists>zs. trace s4 = trace s3 @ zs \<and>
            (\<forall>a \<in> set zs. \<exists>t. a = TelegramSendMessage (chat_id c) t)"
    proof (cases res)
      case DataNull
      then show ?thesis by (simp add: s4_def)
    next
      case (DataObj r)
      then show ?thesis
        by (cases "checkin_reply R r") (simp_all add: s4_def sendMessage_effect)
    qed
    then obtain zs where zs: "trace s4 = trace s3 @ zs"
      "\<forall>a \<in> set zs. \<exists>t. a = TelegramSendMessage (chat_id c) t"
      by blast
    have "trace s4 = trace s2 @ (?k # xs @ zs)"
      using xs(1) zs(1) by (simp add: emit_def)
    then have na: "new_actions s2 s4 = ?k # xs @ zs" by (rule new_actions_append)
    have "list_all (\<lambda>a. \<not> is_listing_query a) (new_actions s2 s4)"
      unfolding na using xs(2) zs(2) by (auto simp: list_all_iff)
    moreover have "truthy (BRAND_ID e) \<longrightarrow>
             (\<exists>b. RewardSendEvent R u (chat_id c) b \<in> set (new_actions s2 s4))"
      unfolding na using xs(3) by auto
    ultimately show ?thesis using t hm s4_def by blast
  qed
  with s1 show ?thesis by blast
qed

theorem config_checkin_round_trip_witness:
  "handleMessage listing_world demo_env
     (text_message (-100) alice ''/config_checkin daily_checkin'') init_state
     = (None, stored_state) \<and>
   handleMessage listing_world demo_env (text_message (-100) bob ''/checkin'') stored_state
     = (None, stored_state
         \<lparr>cachedBotUsername := Some ''@loyalty_bot'',
          trace := trace stored_state @
            [KvGet (CHECKIN_EVENT_ID (-100)), TelegramGetMe,
             RewardSendEvent ''custom_abc123'' bob (-100) (Some ''@loyalty_bot''),
             TelegramSendMessage (-100) (CheckinComplete (JNum 10))]\<rparr>)"
  using config_checkin_round_trip [of
      "text_message (-100) alice ''/config_checkin daily_checkin''" "\<lparr>chat_id = -100\<rparr>" alice
      demo_env listing_world init_state
      "init_state\<lparr>trace := [TelegramGetChatMember (-100) 7]\<rparr>"
      "''custom_abc123''"
      "init_state\<lparr>trace := [TelegramGetChatMember (-100) 7,
          EventConfigFetch ''https://api.loyalteez.app'' ''0xbrand'']\<rparr>"
      "text_message (-100) bob ''/checkin''" bob]
  by (simp add: eval_defs)

text \<open>
  C4 as stated fails for "any user": after the same configuration, a \<open>/checkin\<close> whose
  sender is a bot is ignored, and no reward is triggered (in general, by
  \<open>handleMessage_ignores_bots\<close>).
\<close>

theorem checkin_from_bot_counterexample:
  "handleMessage listing_world demo_env
     (text_message (-100) alice ''/config_checkin daily_checkin'') init_state
     = (None, stored_state) \<and>
   kv stored_state (CHECKIN_EVENT_ID (-100)) = Some ''custom_abc123'' \<and>
   handleMessage listing_world demo_env
     (text_message (-100) anonymous_admin ''/checkin'') stored_state
     = (None, stored_state)"
  by (simp add: eval_defs)


section \<open>The acknowledgment\<close>










end
